theory Spec2Isabelle
  imports Complex_Main
begin

section \<open>Errors and driver values\<close>

text \<open>
  The exception classes of \<^verbatim>\<open>core/exceptions.py\<close> that the connection, the cursor and
  the pool raise, together with the exceptions of the Python runtime and of
  \<^verbatim>\<open>queue.Queue\<close> that can escape from them. Each carries the message text where the
  source gives one.
\<close>

datatype error =
    InterfaceError string
  | OperationalError string
  | ProgrammingError string
  | QueueEmpty
  | QueueFull
  | ValueError string
  | TypeError string
  | AttributeError string
  | StopIteration

fun error_text :: "error \<Rightarrow> string" where
  "error_text (InterfaceError m) = m"
| "error_text (OperationalError m) = m"
| "error_text (ProgrammingError m) = m"
| "error_text QueueEmpty = []"
| "error_text QueueFull = []"
| "error_text (ValueError m) = m"
| "error_text (TypeError m) = m"
| "error_text (AttributeError m) = m"
| "error_text StopIteration = []"

text \<open>
  Values that cross the driver boundary. A lazy result sequence (the driver's find or
  aggregate cursor) is \<open>PIter\<close> with the elements not yet pulled; a write result is an
  object \<open>PObject\<close> with its attributes.
\<close>

datatype pyval =
    PNone
  | PBool bool
  | PInt int
  | PStr string
  | PDict "(string \<times> pyval) list"
  | PIter "pyval list"
  | PObject "(string \<times> pyval) list"

section \<open>Connection (core/connection.py)\<close>

text \<open>
  The driver handle is opaque; the only thing the pool asks of it is the ping, whose
  answer is the field \<open>alive\<close>. The database reference stored by \<open>connect\<close> is opaque
  as well.
\<close>

datatype handle = Handle (alive: bool)

datatype dbref = DbRef string

record connection =
  c_document_factory :: "(pyval \<Rightarrow> pyval) option"
  c_client :: "handle option"
  c_db :: "dbref option"
  c_closed :: bool

text \<open>The state \<^verbatim>\<open>Connection.__init__\<close> leaves: no handle, no database, not closed.\<close>

definition Connection_init :: "(pyval \<Rightarrow> pyval) option \<Rightarrow> connection" where
  "Connection_init factory =
     \<lparr>c_document_factory = factory, c_client = None, c_db = None, c_closed = False\<rparr>"

text \<open>
  What the driver does when \<^verbatim>\<open>connect\<close> reaches it: the import of the driver fails, the
  client constructor raises, the client and the database reference are stored and a later
  \<^verbatim>\<open>with_options\<close> raises, or everything succeeds.
\<close>

datatype driver_outcome =
    ImportFails
  | ClientFails string
  | OptionsFail handle dbref string
  | Connected handle dbref

definition Connection_connect :: "driver_outcome \<Rightarrow> connection \<Rightarrow> error option \<times> connection" where
  "Connection_connect drv c =
     (if c_client c \<noteq> None then (None, c)
      else case drv of
        ImportFails \<Rightarrow>
          (Some (InterfaceError ''pymongo is required. Install it with: pip install pymongo''), c)
      | ClientFails m \<Rightarrow>
          (Some (InterfaceError (''Failed to connect to MongoDB: '' @ m)), c)
      | OptionsFail h d m \<Rightarrow>
          (Some (InterfaceError (''Failed to connect to MongoDB: '' @ m)),
           c\<lparr>c_client := Some h, c_db := Some d\<rparr>)
      | Connected h d \<Rightarrow> (None, c\<lparr>c_client := Some h, c_db := Some d\<rparr>))"

definition Connection_close :: "connection \<Rightarrow> connection" where
  "Connection_close c =
     (if c_client c \<noteq> None then c\<lparr>c_client := None, c_db := None, c_closed := True\<rparr>
      else c\<lparr>c_closed := True\<rparr>)"

definition Connection_closed :: "connection \<Rightarrow> bool" where
  "Connection_closed c = c_closed c"

definition Connection_collection :: "connection \<Rightarrow> string \<Rightarrow> error + (dbref \<times> string)" where
  "Connection_collection c name =
     (if c_closed c then Inl (InterfaceError ''Connection is closed'')
      else case c_db c of
        None \<Rightarrow> Inl (InterfaceError ''Connection is closed'')
      | Some d \<Rightarrow> Inr (d, name))"

definition Connection_database :: "connection \<Rightarrow> error + dbref" where
  "Connection_database c =
     (if c_closed c then Inl (InterfaceError ''Connection is closed'')
      else case c_db c of
        None \<Rightarrow> Inl (InterfaceError ''Connection is closed'')
      | Some d \<Rightarrow> Inr d)"

definition Connection_client :: "connection \<Rightarrow> error + handle" where
  "Connection_client c =
     (if c_closed c then Inl (InterfaceError ''Connection is closed'')
      else case c_client c of
        None \<Rightarrow> Inl (InterfaceError ''Connection is closed'')
      | Some h \<Rightarrow> Inr h)"


text \<open>
  The calls that change a connection, each with what the driver does during it; the
  accessors above only read. \<open>conn_run\<close> performs a sequence of them.
\<close>

datatype conn_call = Connect driver_outcome | Close

fun conn_step :: "conn_call \<Rightarrow> connection \<Rightarrow> connection" where
  "conn_step (Connect drv) c = snd (Connection_connect drv c)"
| "conn_step Close c = Connection_close c"

fun conn_run :: "conn_call list \<Rightarrow> connection \<Rightarrow> connection" where
  "conn_run [] c = c"
| "conn_run (x # xs) c = conn_run xs (conn_step x c)"

section \<open>Python operations on driver values\<close>

text \<open>
  \<^verbatim>\<open>next(it)\<close>: an iterator yields its next element and advances, raises
  \<^verbatim>\<open>StopIteration\<close> when it is exhausted; anything else is not an iterator.
\<close>

fun py_next :: "pyval \<Rightarrow> error + (pyval \<times> pyval)" where
  "py_next (PIter []) = Inl StopIteration"
| "py_next (PIter (x # xs)) = Inr (x, PIter xs)"
| "py_next v = Inl (TypeError ''object is not an iterator'')"

text \<open>
  \<^verbatim>\<open>for doc in v\<close> run to the end: the elements, and the value left behind (an iterator
  is consumed; a dict yields its keys, a string its characters, and both stay as they are).
\<close>

fun py_iterate :: "pyval \<Rightarrow> error + (pyval list \<times> pyval)" where
  "py_iterate (PIter xs) = Inr (xs, PIter [])"
| "py_iterate (PDict kvs) = Inr (map (\<lambda>kv. PStr (fst kv)) kvs, PDict kvs)"
| "py_iterate (PStr s) = Inr (map (\<lambda>c. PStr [c]) s, PStr s)"
| "py_iterate v = Inl (TypeError ''object is not iterable'')"

fun py_hasattr :: "pyval \<Rightarrow> string \<Rightarrow> bool" where
  "py_hasattr (PObject attrs) name = (map_of attrs name \<noteq> None)"
| "py_hasattr v name = False"

fun py_getattr :: "pyval \<Rightarrow> string \<Rightarrow> error + pyval" where
  "py_getattr (PObject attrs) name =
     (case map_of attrs name of
        None \<Rightarrow> Inl (AttributeError name)
      | Some v \<Rightarrow> Inr v)"
| "py_getattr v name = Inl (AttributeError name)"

fun truthy :: "pyval \<Rightarrow> bool" where
  "truthy PNone = False"
| "truthy (PBool b) = b"
| "truthy (PInt n) = (n \<noteq> 0)"
| "truthy (PStr s) = (s \<noteq> [])"
| "truthy (PDict kvs) = (kvs \<noteq> [])"
| "truthy (PIter xs) = True"
| "truthy (PObject attrs) = True"

section \<open>Cursor (core/cursor.py)\<close>

text \<open>
  The cursor refers to its connection; the connection is passed to each operation in the
  state it has when the operation runs, so that a connection closed after the cursor was
  made is seen closed. The document factory is applied to the raw document (the cursor
  argument of the factory is only stored by the factories of the repository).
\<close>

record cursor =
  cur_collection_name :: string
  cur_operation :: string
  cur_args :: "pyval list"
  cur_kwargs :: "(string \<times> pyval) list"
  cur_document_factory :: "pyval \<Rightarrow> pyval"
  cur_result :: pyval
  cur_executed :: bool
  cur_description :: pyval

definition dict_factory :: "pyval \<Rightarrow> pyval" where
  "dict_factory document = document"

definition Cursor_init ::
  "connection \<Rightarrow> string \<Rightarrow> string \<Rightarrow> pyval list \<Rightarrow> (string \<times> pyval) list \<Rightarrow> cursor" where
  "Cursor_init conn collection operation args kwargs =
     \<lparr>cur_collection_name = collection, cur_operation = operation,
      cur_args = args, cur_kwargs = kwargs,
      cur_document_factory =
        (case c_document_factory conn of None \<Rightarrow> dict_factory | Some f \<Rightarrow> f),
      cur_result = PNone, cur_executed = False, cur_description = PNone\<rparr>"

definition Connection_execute ::
  "connection \<Rightarrow> string \<Rightarrow> string \<Rightarrow> pyval list \<Rightarrow> (string \<times> pyval) list \<Rightarrow> error + cursor" where
  "Connection_execute c collection operation args kwargs =
     (if c_closed c then Inl (InterfaceError ''Connection is closed'')
      else case c_db c of
        None \<Rightarrow> Inl (InterfaceError ''Connection is closed'')
      | Some d \<Rightarrow> Inr (Cursor_init c collection operation args kwargs))"

text \<open>
  One call of a method of the driver's collection object, and the driver: given the calls
  made so far and the next call, it returns a value or raises. The list of calls is the
  record of what reached the driver.
\<close>

record call =
  call_db :: dbref
  call_collection :: string
  call_method :: string
  call_args :: "pyval list"
  call_kwargs :: "(string \<times> pyval) list"

datatype reply = Returns pyval | Raises string

type_synonym driver = "call list \<Rightarrow> call \<Rightarrow> reply"

text \<open>
  The \<^verbatim>\<open>if\<close>/\<^verbatim>\<open>elif\<close> chain of \<^verbatim>\<open>Cursor.execute\<close>: the collection method called for
  an operation name, \<open>None\<close> where the chain reaches its \<^verbatim>\<open>else\<close>.
\<close>

definition Cursor_dispatch :: "string \<Rightarrow> string option" where
  "Cursor_dispatch operation =
     (if operation = ''find'' then Some ''find''
      else if operation = ''find_one'' then Some ''find_one''
      else if operation = ''insert_one'' then Some ''insert_one''
      else if operation = ''insert_many'' then Some ''insert_many''
      else if operation = ''update_one'' then Some ''update_one''
      else if operation = ''update_many'' then Some ''update_many''
      else if operation = ''delete_one'' then Some ''delete_one''
      else if operation = ''delete_many'' then Some ''delete_many''
      else if operation = ''replace_one'' then Some ''replace_one''
      else if operation = ''aggregate'' then Some ''aggregate''
      else if operation = ''count_documents'' then Some ''count_documents''
      else None)"

definition Cursor_execute ::
  "driver \<Rightarrow> connection \<Rightarrow> call list \<Rightarrow> cursor \<Rightarrow> error option \<times> call list \<times> cursor" where
  "Cursor_execute drv conn hist cur =
     (if cur_executed cur then (None, hist, cur)
      else if Connection_closed conn then (Some (InterfaceError ''Connection is closed''), hist, cur)
      else case Connection_collection conn (cur_collection_name cur) of
        Inl e \<Rightarrow> (Some (ProgrammingError (''Operation failed: '' @ error_text e)), hist, cur)
      | Inr (d, name) \<Rightarrow>
          (case Cursor_dispatch (cur_operation cur) of
             None \<Rightarrow>
               (Some (ProgrammingError
                  (''Operation failed: '' @ ''Unknown operation: '' @ cur_operation cur)),
                hist, cur)
           | Some meth \<Rightarrow>
               (let c = \<lparr>call_db = d, call_collection = name, call_method = meth,
                         call_args = cur_args cur, call_kwargs = cur_kwargs cur\<rparr>
                in case drv hist c of
                     Raises m \<Rightarrow>
                       (Some (ProgrammingError (''Operation failed: '' @ m)), hist @ [c], cur)
                   | Returns v \<Rightarrow>
                       (None, hist @ [c],
                        cur\<lparr>cur_result := v, cur_description :=
                              (if meth = ''find'' then PNone else cur_description cur),
                            cur_executed := True\<rparr>))))"

text \<open>\<^verbatim>\<open>if not self._executed: self.execute()\<close>, the first statement of every fetch.\<close>

definition Cursor_ensure_executed ::
  "driver \<Rightarrow> connection \<Rightarrow> call list \<Rightarrow> cursor \<Rightarrow> error option \<times> call list \<times> cursor" where
  "Cursor_ensure_executed drv conn hist cur =
     (if cur_executed cur then (None, hist, cur) else Cursor_execute drv conn hist cur)"

definition Cursor_fetchone ::
  "driver \<Rightarrow> connection \<Rightarrow> call list \<Rightarrow> cursor \<Rightarrow> (error + pyval) \<times> call list \<times> cursor" where
  "Cursor_fetchone drv conn hist cur0 =
     (case Cursor_ensure_executed drv conn hist cur0 of
        (Some e, hist1, cur) \<Rightarrow> (Inl e, hist1, cur)
      | (None, hist1, cur) \<Rightarrow>
          (if cur_operation cur = ''find_one'' then
             (if cur_result cur = PNone then (Inr PNone, hist1, cur)
              else (Inr (cur_document_factory cur (cur_result cur)), hist1, cur))
           else if cur_operation cur = ''find'' then
             (if cur_result cur = PNone then (Inr PNone, hist1, cur)
              else case py_next (cur_result cur) of
                Inl StopIteration \<Rightarrow> (Inr PNone, hist1, cur)
              | Inl e \<Rightarrow> (Inl e, hist1, cur)
              | Inr (doc, it) \<Rightarrow>
                  (Inr (cur_document_factory cur doc), hist1, cur\<lparr>cur_result := it\<rparr>))
           else (Inr (cur_result cur), hist1, cur)))"

text \<open>
  The loop of \<^verbatim>\<open>fetchmany\<close>: up to \<open>n\<close> times pull the next element and append its
  image under the factory; \<^verbatim>\<open>StopIteration\<close> ends the loop, any other error leaves it.
\<close>

fun fetchmany_loop ::
  "(pyval \<Rightarrow> pyval) \<Rightarrow> nat \<Rightarrow> pyval \<Rightarrow> pyval list \<Rightarrow> error option \<times> pyval \<times> pyval list" where
  "fetchmany_loop f 0 it docs = (None, it, docs)"
| "fetchmany_loop f (Suc n) it docs =
     (case py_next it of
        Inl StopIteration \<Rightarrow> (None, it, docs)
      | Inl e \<Rightarrow> (Some e, it, docs)
      | Inr (doc, it') \<Rightarrow> fetchmany_loop f n it' (docs @ [f doc]))"

definition Cursor_fetchmany ::
  "driver \<Rightarrow> connection \<Rightarrow> int \<Rightarrow> call list \<Rightarrow> cursor \<Rightarrow>
     (error + pyval list) \<times> call list \<times> cursor" where
  "Cursor_fetchmany drv conn n hist cur0 =
     (case Cursor_ensure_executed drv conn hist cur0 of
        (Some e, hist1, cur) \<Rightarrow> (Inl e, hist1, cur)
      | (None, hist1, cur) \<Rightarrow>
          (if cur_operation cur = ''find'' then
             (if cur_result cur = PNone then (Inr [], hist1, cur)
              else case fetchmany_loop (cur_document_factory cur) (nat n) (cur_result cur) [] of
                (Some e, it, docs) \<Rightarrow> (Inl e, hist1, cur\<lparr>cur_result := it\<rparr>)
              | (None, it, docs) \<Rightarrow> (Inr docs, hist1, cur\<lparr>cur_result := it\<rparr>))
           else if cur_operation cur = ''find_one'' then
             (case Cursor_fetchone drv conn hist1 cur of
                (Inl e, hist2, cur2) \<Rightarrow> (Inl e, hist2, cur2)
              | (Inr doc, hist2, cur2) \<Rightarrow>
                  (Inr (if doc = PNone then [] else [doc]), hist2, cur2))
           else (Inr [], hist1, cur)))"

definition Cursor_fetchall ::
  "driver \<Rightarrow> connection \<Rightarrow> call list \<Rightarrow> cursor \<Rightarrow> (error + pyval list) \<times> call list \<times> cursor" where
  "Cursor_fetchall drv conn hist cur0 =
     (case Cursor_ensure_executed drv conn hist cur0 of
        (Some e, hist1, cur) \<Rightarrow> (Inl e, hist1, cur)
      | (None, hist1, cur) \<Rightarrow>
          (if cur_operation cur = ''find'' then
             (if cur_result cur = PNone then (Inr [], hist1, cur)
              else case py_iterate (cur_result cur) of
                Inl e \<Rightarrow> (Inl e, hist1, cur)
              | Inr (docs, it) \<Rightarrow>
                  (Inr (map (cur_document_factory cur) docs), hist1, cur\<lparr>cur_result := it\<rparr>))
           else if cur_operation cur = ''find_one'' then
             (case Cursor_fetchone drv conn hist1 cur of
                (Inl e, hist2, cur2) \<Rightarrow> (Inl e, hist2, cur2)
              | (Inr doc, hist2, cur2) \<Rightarrow>
                  (Inr (if doc = PNone then [] else [doc]), hist2, cur2))
           else (Inr [], hist1, cur)))"

definition Cursor_rowcount :: "cursor \<Rightarrow> error + pyval" where
  "Cursor_rowcount cur =
     (if \<not> cur_executed cur then Inr (PInt (- 1))
      else if cur_operation cur \<in> set [''insert_one'', ''update_one'', ''delete_one'', ''replace_one''] then
        (case py_getattr (cur_result cur) ''acknowledged'' of
           Inl e \<Rightarrow> Inl e
         | Inr a \<Rightarrow> Inr (if truthy a then PInt 1 else PInt 0))
      else if cur_operation cur \<in> set [''insert_many'', ''update_many'', ''delete_many''] then
        (if py_hasattr (cur_result cur) ''inserted_count''
           then py_getattr (cur_result cur) ''inserted_count''
         else if py_hasattr (cur_result cur) ''modified_count''
           then py_getattr (cur_result cur) ''modified_count''
         else if py_hasattr (cur_result cur) ''deleted_count''
           then py_getattr (cur_result cur) ''deleted_count''
         else Inr (PInt 0))
      else if cur_operation cur = ''count_documents'' then Inr (cur_result cur)
      else Inr (PInt (- 1)))"

section \<open>ConnectionPool (advanced/connection_pool.py)\<close>

text \<open>
  \<^verbatim>\<open>queue.Queue(maxsize)\<close> as the list of its items, oldest first. With no other thread
  to put an item, \<^verbatim>\<open>get(timeout=t)\<close> on an empty queue waits \<open>t\<close> and raises
  \<^verbatim>\<open>Empty\<close>; a negative timeout is refused before the queue is looked at. A queue
  whose \<open>maxsize\<close> is not positive has no capacity limit.
\<close>

definition Queue_get :: "real \<Rightarrow> 'a list \<Rightarrow> error + ('a \<times> 'a list)" where
  "Queue_get timeout q =
     (if timeout < 0 then Inl (ValueError ''timeout must be a non-negative number'')
      else case q of [] \<Rightarrow> Inl QueueEmpty | x # xs \<Rightarrow> Inr (x, xs))"

definition Queue_get_nowait :: "'a list \<Rightarrow> error + ('a \<times> 'a list)" where
  "Queue_get_nowait q = (case q of [] \<Rightarrow> Inl QueueEmpty | x # xs \<Rightarrow> Inr (x, xs))"

definition Queue_full :: "int \<Rightarrow> 'a list \<Rightarrow> bool" where
  "Queue_full maxsize q = (0 < maxsize \<and> maxsize \<le> int (length q))"

definition Queue_put_nowait :: "int \<Rightarrow> 'a \<Rightarrow> 'a list \<Rightarrow> error + 'a list" where
  "Queue_put_nowait maxsize x q = (if Queue_full maxsize q then Inl QueueFull else Inr (q @ [x]))"

record pool =
  p_document_factory :: "(pyval \<Rightarrow> pyval) option"
  p_minconn :: int
  p_maxconn :: int
  p_connect_timeout :: real
  p_pool :: "connection list"
  p_created_connections :: int
  p_closed :: bool

definition ConnectionPool_create_connection ::
  "driver_outcome \<Rightarrow> pool \<Rightarrow> (error + connection) \<times> pool" where
  "ConnectionPool_create_connection drv p =
     (if p_closed p then (Inl (InterfaceError ''Pool is closed''), p)
      else if p_maxconn p \<le> p_created_connections p
        then (Inl (OperationalError ''Maximum number of connections reached''), p)
      else case Connection_connect drv (Connection_init (p_document_factory p)) of
        (Some e, conn) \<Rightarrow> (Inl e, p)
      | (None, conn) \<Rightarrow>
          (Inr conn, p\<lparr>p_created_connections := p_created_connections p + 1\<rparr>))"

text \<open>
  The loop of the constructor, \<^verbatim>\<open>for _ in range(minconn): self._create_connection()\<close>:
  the connection each call returns is dropped. \<open>drv i\<close> is what the driver does at the
  \<open>i\<close>-th iteration.
\<close>

fun create_initial :: "(nat \<Rightarrow> driver_outcome) \<Rightarrow> nat list \<Rightarrow> pool \<Rightarrow> error + pool" where
  "create_initial drv [] p = Inr p"
| "create_initial drv (i # is) p =
     (case ConnectionPool_create_connection (drv i) p of
        (Inl e, p') \<Rightarrow> Inl e
      | (Inr conn, p') \<Rightarrow> create_initial drv is p')"

definition ConnectionPool_init ::
  "(nat \<Rightarrow> driver_outcome) \<Rightarrow> (pyval \<Rightarrow> pyval) option \<Rightarrow> int \<Rightarrow> int \<Rightarrow> real \<Rightarrow> error + pool" where
  "ConnectionPool_init drv factory minconn maxconn connect_timeout =
     create_initial drv [0 ..< nat minconn]
       \<lparr>p_document_factory = factory, p_minconn = minconn, p_maxconn = maxconn,
        p_connect_timeout = connect_timeout, p_pool = [], p_created_connections = 0,
        p_closed = False\<rparr>"

text \<open>
  The liveness probe \<^verbatim>\<open>conn.client.admin.command('ping')\<close>: the \<^verbatim>\<open>client\<close> property
  raises on a closed or unconnected connection, otherwise the handle answers or not.
\<close>

definition ping :: "connection \<Rightarrow> bool" where
  "ping conn = (case Connection_client conn of Inl e \<Rightarrow> False | Inr h \<Rightarrow> alive h)"

definition ConnectionPool_getconn ::
  "driver_outcome \<Rightarrow> real option \<Rightarrow> pool \<Rightarrow> (error + connection) \<times> pool" where
  "ConnectionPool_getconn drv timeout p =
     (if p_closed p then (Inl (InterfaceError ''Pool is closed''), p)
      else
        let t = (case timeout of None \<Rightarrow> p_connect_timeout p | Some t' \<Rightarrow> t') in
        case Queue_get t (p_pool p) of
          Inr (conn, q) \<Rightarrow>
            (if ping conn then (Inr conn, p\<lparr>p_pool := q\<rparr>)
             else ConnectionPool_create_connection drv (p\<lparr>p_pool := q\<rparr>))
        | Inl QueueEmpty \<Rightarrow>
            (case ConnectionPool_create_connection drv p of
               (Inl (OperationalError m), p1) \<Rightarrow>
                 (case Queue_get t (p_pool p1) of
                    Inr (conn, q) \<Rightarrow>
                      (if ping conn then (Inr conn, p1\<lparr>p_pool := q\<rparr>)
                       else ConnectionPool_create_connection drv (p1\<lparr>p_pool := q\<rparr>))
                  | Inl e \<Rightarrow> (Inl e, p1))
             | r \<Rightarrow> r)
        | Inl e \<Rightarrow> (Inl e, p))"

definition ConnectionPool_putconn :: "connection \<Rightarrow> pool \<Rightarrow> connection \<times> pool" where
  "ConnectionPool_putconn conn p =
     (if p_closed p then (Connection_close conn, p)
      else if Connection_closed conn
        then (conn, p\<lparr>p_created_connections := p_created_connections p - 1\<rparr>)
      else case Queue_put_nowait (p_maxconn p) conn (p_pool p) of
        Inr q \<Rightarrow> (conn, p\<lparr>p_pool := q\<rparr>)
      | Inl e \<Rightarrow>
          (Connection_close conn, p\<lparr>p_created_connections := p_created_connections p - 1\<rparr>))"

text \<open>
  The loop of \<^verbatim>\<open>closeall\<close> takes every idle connection off the queue and closes it;
  \<open>drain\<close> gives the closed connections, in the order they were taken.
\<close>

fun drain :: "connection list \<Rightarrow> connection list" where
  "drain [] = []"
| "drain (conn # q) = Connection_close conn # drain q"

definition ConnectionPool_closeall :: "pool \<Rightarrow> connection list \<times> pool" where
  "ConnectionPool_closeall p =
     (drain (p_pool p), p\<lparr>p_closed := True, p_pool := [], p_created_connections := 0\<rparr>)"

text \<open>
  A caller's view of the pool: a sequence of calls, each with what the environment does
  during it. \<open>pool_trace\<close> lists the state of the pool after each call.
\<close>

datatype pool_call =
    Acquire driver_outcome "real option"
  | Release connection
  | CloseAll

fun pool_step :: "pool_call \<Rightarrow> pool \<Rightarrow> pool" where
  "pool_step (Acquire drv timeout) p = snd (ConnectionPool_getconn drv timeout p)"
| "pool_step (Release conn) p = snd (ConnectionPool_putconn conn p)"
| "pool_step CloseAll p = snd (ConnectionPool_closeall p)"

fun pool_trace :: "pool_call list \<Rightarrow> pool \<Rightarrow> pool list" where
  "pool_trace [] p = [p]"
| "pool_trace (c # cs) p = p # pool_trace cs (pool_step c p)"

section \<open>Names used in the statements\<close>

text \<open>
  The call \<^verbatim>\<open>Cursor.execute\<close> makes for a cursor: the named method of the collection
  object of database \<open>d\<close>, with the cursor's arguments.
\<close>

definition the_call :: "dbref \<Rightarrow> string \<Rightarrow> cursor \<Rightarrow> call" where
  "the_call d meth cur =
     \<lparr>call_db = d, call_collection = cur_collection_name cur, call_method = meth,
      call_args = cur_args cur, call_kwargs = cur_kwargs cur\<rparr>"

text \<open>The operation names the chain of \<^verbatim>\<open>Cursor.execute\<close> tests for, in its order.\<close>

definition known_operations :: "string list" where
  "known_operations =
     [''find'', ''find_one'', ''insert_one'', ''insert_many'', ''update_one'', ''update_many'',
      ''delete_one'', ''delete_many'', ''replace_one'', ''aggregate'', ''count_documents'']"

text \<open>
  Concrete inputs: a connected, open connection; a driver that answers every call with the
  number of calls made before it; a factory that wraps the raw document, as the
  \<^verbatim>\<open>Document\<close> class of \<^verbatim>\<open>core/document.py\<close> does.
\<close>

definition open_connection :: "(pyval \<Rightarrow> pyval) option \<Rightarrow> connection" where
  "open_connection factory =
     \<lparr>c_document_factory = factory, c_client = Some (Handle True),
      c_db = Some (DbRef ''app''), c_closed = False\<rparr>"

definition counting_driver :: driver where
  "counting_driver hist c = Returns (PInt (int (length hist)))"

definition wrap_factory :: "pyval \<Rightarrow> pyval" where
  "wrap_factory document = PObject [(''_data'', document)]"



text \<open>A cursor as an execution that stored \<open>raw\<close> leaves it.\<close>

definition executed_cursor :: "string \<Rightarrow> pyval \<Rightarrow> cursor" where
  "executed_cursor operation raw =
     (Cursor_init (open_connection None) ''users'' operation [] [])
       \<lparr>cur_result := raw, cur_executed := True\<rparr>"

text \<open>
  A driver that answers every call with a lazy sequence of two documents, and the cursor
  that \<open>execute\<close> leaves for an operation against it, on a connection whose factory
  wraps documents.
\<close>

definition two_documents :: "pyval list" where
  "two_documents = [PDict [(''n'', PInt 1)], PDict [(''n'', PInt 2)]]"

definition sequence_driver :: driver where
  "sequence_driver hist c = Returns (PIter two_documents)"

definition executed_on :: "string \<Rightarrow> cursor" where
  "executed_on operation =
     snd (snd (Cursor_execute sequence_driver (open_connection (Some wrap_factory)) []
       (Cursor_init (open_connection (Some wrap_factory)) ''orders'' operation [] [])))"

text \<open>
  The steps of the pool that are atomic with respect to other threads: the body of
  \<^verbatim>\<open>_create_connection\<close> and the two counter updates, each under the pool's lock; the
  queue's own \<^verbatim>\<open>get\<close> and \<^verbatim>\<open>put_nowait\<close>; the assignment to the closed flag. Calls
  running in several threads interleave as some sequence of these steps.
\<close>

datatype atomic_action =
    CreateLocked driver_outcome
  | QueueGet
  | QueuePut connection
  | DecrementLocked
  | MarkClosed
  | ResetLocked

fun atomic_step :: "atomic_action \<Rightarrow> pool \<Rightarrow> pool" where
  "atomic_step (CreateLocked drv) p = snd (ConnectionPool_create_connection drv p)"
| "atomic_step QueueGet p = (case p_pool p of [] \<Rightarrow> p | conn # q \<Rightarrow> p\<lparr>p_pool := q\<rparr>)"
| "atomic_step (QueuePut conn) p =
     (case Queue_put_nowait (p_maxconn p) conn (p_pool p) of
        Inl e \<Rightarrow> p
      | Inr q \<Rightarrow> p\<lparr>p_pool := q\<rparr>)"
| "atomic_step DecrementLocked p = p\<lparr>p_created_connections := p_created_connections p - 1\<rparr>"
| "atomic_step MarkClosed p = p\<lparr>p_closed := True\<rparr>"
| "atomic_step ResetLocked p = p\<lparr>p_created_connections := 0\<rparr>"

fun atomic_run :: "atomic_action list \<Rightarrow> pool \<Rightarrow> pool" where
  "atomic_run [] p = p"
| "atomic_run (a # as) p = atomic_run as (atomic_step a p)"

fun atomic_trace :: "atomic_action list \<Rightarrow> pool \<Rightarrow> pool list" where
  "atomic_trace [] p = [p]"
| "atomic_trace (a # as) p = p # atomic_trace as (atomic_step a p)"

text \<open>
  Concrete inputs: a driver outcome that connects, and the pool the constructor leaves
  when it has made \<open>minconn\<close> connections.
\<close>

definition reachable :: driver_outcome where
  "reachable = Connected (Handle True) (DbRef ''app'')"

definition constructed_pool :: "int \<Rightarrow> int \<Rightarrow> pool" where
  "constructed_pool maxconn minconn =
     \<lparr>p_document_factory = None, p_minconn = minconn, p_maxconn = maxconn,
      p_connect_timeout = 5, p_pool = [], p_created_connections = minconn, p_closed = False\<rparr>"

text \<open>
  A connection as \<open>connect\<close> leaves it when the driver connects, and one whose handle
  no longer answers the ping.
\<close>

definition live_connection :: connection where
  "live_connection =
     \<lparr>c_document_factory = None, c_client = Some (Handle True),
      c_db = Some (DbRef ''app''), c_closed = False\<rparr>"

definition dead_connection :: connection where
  "dead_connection =
     \<lparr>c_document_factory = None, c_client = Some (Handle False),
      c_db = Some (DbRef ''app''), c_closed = False\<rparr>"

section \<open>Properties of the connection\<close>

lemma connect_keeps_closed: "c_closed (snd (Connection_connect drv c)) = c_closed c"
  by (cases drv) (simp_all add: Connection_connect_def)

lemma close_sets_closed: "c_closed (Connection_close c)"
  by (simp add: Connection_close_def)

lemma close_drops_handle: "c_client (Connection_close c) = None"
  by (simp add: Connection_close_def)

lemma conn_step_keeps_closed: "c_closed c \<Longrightarrow> c_closed (conn_step x c)"
  by (cases x) (simp_all add: connect_keeps_closed close_sets_closed)

lemma conn_run_keeps_closed: "c_closed c \<Longrightarrow> c_closed (conn_run xs c)"
  by (induction xs arbitrary: c) (simp_all add: conn_step_keeps_closed)

text \<open>
  C10. Once \<open>close\<close> has been called the closed flag stays set through every later
  sequence of \<open>connect\<close> and \<open>close\<close> calls, so \<open>execute\<close>, \<open>collection\<close>,
  \<open>database\<close> and \<open>client\<close> fail with the closed-connection error from then on; a
  \<open>connect\<close> right after the \<open>close\<close> does open a new handle and store a database
  reference, and leaves the flag set.
\<close>

theorem closed_is_permanent:
  "c_closed (conn_run xs (Connection_close c))
   \<and> Connection_execute (conn_run xs (Connection_close c)) coll operation args kwargs
       = Inl (InterfaceError ''Connection is closed'')
   \<and> Connection_collection (conn_run xs (Connection_close c)) name
       = Inl (InterfaceError ''Connection is closed'')
   \<and> Connection_database (conn_run xs (Connection_close c))
       = Inl (InterfaceError ''Connection is closed'')
   \<and> Connection_client (conn_run xs (Connection_close c))
       = Inl (InterfaceError ''Connection is closed'')
   \<and> c_client (snd (Connection_connect (Connected h d) (Connection_close c))) = Some h
   \<and> c_db (snd (Connection_connect (Connected h d) (Connection_close c))) = Some d
   \<and> c_closed (snd (Connection_connect (Connected h d) (Connection_close c)))"
proof -
  have closed: "c_closed (conn_run xs (Connection_close c))"
    by (rule conn_run_keeps_closed) (rule close_sets_closed)
  have fresh: "c_client (Connection_close c) = None"
    by (rule close_drops_handle)
  have flag: "c_closed (snd (Connection_connect (Connected h d) (Connection_close c)))"
    by (simp add: connect_keeps_closed close_sets_closed)
  from closed fresh flag show ?thesis
    by (simp add: Connection_execute_def Connection_collection_def Connection_database_def
        Connection_client_def Connection_connect_def)
qed

theorem closed_is_permanent_witness:
  "Connection_client
     (conn_run [Connect (Connected (Handle True) (DbRef ''app''))]
        (Connection_close (Connection_init None)))
     = Inl (InterfaceError ''Connection is closed'')
   \<and> c_client (snd (Connection_connect (Connected (Handle True) (DbRef ''app''))
        (Connection_close (Connection_init None)))) = Some (Handle True)"
  using closed_is_permanent [of "[Connect (Connected (Handle True) (DbRef ''app''))]"
      "Connection_init None" "''users''" "''find''" "[]" "[]" "''users''"
      "Handle True" "DbRef ''app''"]
  by simp

section \<open>Properties of the cursor\<close>

lemma execute_executed:
  "cur_executed cur \<Longrightarrow> Cursor_execute drv conn hist cur = (None, hist, cur)"
  by (simp add: Cursor_execute_def)

lemma execute_success_sets_flag:
  "Cursor_execute drv conn hist cur = (None, hist1, cur1) \<Longrightarrow> cur_executed cur1"
  by (auto simp: Cursor_execute_def Let_def
      split: if_splits sum.splits option.splits reply.splits prod.splits)


lemma execute_first_call:
  "\<not> cur_executed cur \<Longrightarrow> Cursor_execute drv conn hist cur = (None, hist1, cur1) \<Longrightarrow>
   \<exists>d meth. c_db conn = Some d \<and> Cursor_dispatch (cur_operation cur) = Some meth
     \<and> hist1 = hist @ [the_call d meth cur]
     \<and> drv hist (the_call d meth cur) = Returns (cur_result cur1)"
  by (auto simp: Cursor_execute_def Let_def the_call_def Connection_collection_def
      split: if_splits sum.splits option.splits reply.splits prod.splits)

lemma dispatch_same: "Cursor_dispatch operation = Some m \<Longrightarrow> m = operation"
  by (simp add: Cursor_dispatch_def split: if_splits)


lemma dispatch_known_same:
  "operation \<in> set known_operations \<Longrightarrow> Cursor_dispatch operation = Some operation"
  unfolding known_operations_def Cursor_dispatch_def
  by (elim disjE | simp only: set_simps insert_iff empty_iff)+ simp_all

lemma execute_dispatched:
  assumes "\<not> cur_executed cur" "\<not> c_closed conn" "c_db conn = Some d"
    and "cur_operation cur \<in> set known_operations"
  shows "Cursor_execute drv conn hist cur =
     (case drv hist (the_call d (cur_operation cur) cur) of
        Raises m \<Rightarrow> (Some (ProgrammingError (''Operation failed: '' @ m)),
                      hist @ [the_call d (cur_operation cur) cur], cur)
      | Returns v \<Rightarrow> (None, hist @ [the_call d (cur_operation cur) cur],
                       cur\<lparr>cur_result := v, cur_description :=
                         (if cur_operation cur = ''find'' then PNone else cur_description cur), cur_executed := True\<rparr>))"
proof -
  have disp: "Cursor_dispatch (cur_operation cur) = Some (cur_operation cur)"
    using assms(4) by (rule dispatch_known_same)
  have coll: "Connection_collection conn (cur_collection_name cur) = Inr (d, cur_collection_name cur)"
    using assms(2,3) by (simp add: Connection_collection_def)
  show ?thesis
    unfolding Cursor_execute_def the_call_def
    using assms(1,2) by (simp add: disp coll Connection_closed_def Let_def)
qed


lemma open_connection_usable:
  "\<not> c_closed (open_connection f)" "c_db (open_connection f) = Some (DbRef ''app'')"
  by (simp_all add: open_connection_def)

text \<open>
  C5. When \<open>execute\<close> has succeeded on a cursor that was not yet executed, a second
  \<open>execute\<close> returns the same cursor and makes no call to the driver, whatever the driver
  and the connection have become; the first call made exactly one call to the driver, whose
  value is the stored result, and set the executed flag, which the second call leaves set.
\<close>

theorem execute_twice_is_once:
  assumes fresh: "\<not> cur_executed cur"
    and first: "Cursor_execute drv conn hist cur = (None, hist1, cur1)"
  shows "Cursor_execute drv' conn' hist1 cur1 = (None, hist1, cur1)
         \<and> cur_executed cur1
         \<and> (\<exists>d. c_db conn = Some d \<and> hist1 = hist @ [the_call d (cur_operation cur) cur]
                \<and> drv hist (the_call d (cur_operation cur) cur) = Returns (cur_result cur1))"
proof (intro conjI)
  show flag: "cur_executed cur1"
    using first by (rule execute_success_sets_flag)
  show "Cursor_execute drv' conn' hist1 cur1 = (None, hist1, cur1)"
    using flag by (rule execute_executed)
  from execute_first_call [OF fresh first]
  obtain d meth where d: "c_db conn = Some d"
    and m: "Cursor_dispatch (cur_operation cur) = Some meth"
    and h: "hist1 = hist @ [the_call d meth cur]"
    and r: "drv hist (the_call d meth cur) = Returns (cur_result cur1)"
    by blast
  from m have "meth = cur_operation cur" by (rule dispatch_same)
  with d h r
  show "\<exists>d. c_db conn = Some d \<and> hist1 = hist @ [the_call d (cur_operation cur) cur]
                \<and> drv hist (the_call d (cur_operation cur) cur) = Returns (cur_result cur1)"
    by blast
qed

theorem execute_twice_is_once_witness:
  "Cursor_execute counting_driver (open_connection None) []
      (Cursor_init (open_connection None) ''users'' ''insert_one'' [PDict [(''n'', PInt 1)]] [])
    = (None,
       [the_call (DbRef ''app'') ''insert_one''
          (Cursor_init (open_connection None) ''users'' ''insert_one'' [PDict [(''n'', PInt 1)]] [])],
       (Cursor_init (open_connection None) ''users'' ''insert_one'' [PDict [(''n'', PInt 1)]] [])
         \<lparr>cur_result := PInt 0, cur_executed := True\<rparr>)
   \<and> Cursor_execute counting_driver (Connection_close (open_connection None))
      [the_call (DbRef ''app'') ''insert_one''
          (Cursor_init (open_connection None) ''users'' ''insert_one'' [PDict [(''n'', PInt 1)]] [])]
      ((Cursor_init (open_connection None) ''users'' ''insert_one'' [PDict [(''n'', PInt 1)]] [])
         \<lparr>cur_result := PInt 0, cur_executed := True\<rparr>)
    = (None,
       [the_call (DbRef ''app'') ''insert_one''
          (Cursor_init (open_connection None) ''users'' ''insert_one'' [PDict [(''n'', PInt 1)]] [])],
       (Cursor_init (open_connection None) ''users'' ''insert_one'' [PDict [(''n'', PInt 1)]] [])
         \<lparr>cur_result := PInt 0, cur_executed := True\<rparr>)"
proof -
  let ?cur = "Cursor_init (open_connection None) ''users'' ''insert_one'' [PDict [(''n'', PInt 1)]] []"
  let ?c = "the_call (DbRef ''app'') ''insert_one'' ?cur"
  let ?cur1 = "?cur\<lparr>cur_result := PInt 0, cur_executed := True\<rparr>"
  have fresh: "\<not> cur_executed ?cur"
    by (simp add: Cursor_init_def)
  have op: "cur_operation ?cur = ''insert_one''"
    by (simp add: Cursor_init_def)
  have known: "cur_operation ?cur \<in> set known_operations"
    unfolding op by (simp add: known_operations_def)
  have first: "Cursor_execute counting_driver (open_connection None) [] ?cur = (None, [?c], ?cur1)"
    using execute_dispatched [OF fresh open_connection_usable [of None] known, where
          drv = counting_driver and hist = "[]"]
    by (simp add: counting_driver_def op)
  from execute_twice_is_once [OF fresh first, of counting_driver "Connection_close (open_connection None)"]
  have "Cursor_execute counting_driver (Connection_close (open_connection None)) [?c] ?cur1
          = (None, [?c], ?cur1)"
    by (rule conjunct1)
  with first show ?thesis by (rule conjI)
qed



lemma init_fields:
  "\<not> cur_executed (Cursor_init conn coll operation args kwargs)"
  "cur_operation (Cursor_init conn coll operation args kwargs) = operation"
  by (simp_all add: Cursor_init_def)




lemma rowcount_pending: "\<not> cur_executed cur \<Longrightarrow> Cursor_rowcount cur = Inr (PInt (- 1))"
  by (simp add: Cursor_rowcount_def)

lemma rowcount_count:
  assumes "cur_executed cur" and "cur_operation cur = ''count_documents''"
  shows "Cursor_rowcount cur = Inr (cur_result cur)"
  using assms by (simp add: Cursor_rowcount_def)

lemma many_not_single:
  "x \<in> set [''insert_many'', ''update_many'', ''delete_many''] \<Longrightarrow>
   x \<notin> set [''insert_one'', ''update_one'', ''delete_one'', ''replace_one'']"
  by auto

lemma rowcount_many:
  assumes ex: "cur_executed cur"
    and many: "cur_operation cur \<in> set [''insert_many'', ''update_many'', ''delete_many'']"
    and obj: "cur_result cur = PObject attrs"
  shows "Cursor_rowcount cur =
     Inr (case map_of attrs ''inserted_count'' of
            Some n \<Rightarrow> n
          | None \<Rightarrow>
              (case map_of attrs ''modified_count'' of
                 Some n \<Rightarrow> n
               | None \<Rightarrow>
                   (case map_of attrs ''deleted_count'' of Some n \<Rightarrow> n | None \<Rightarrow> PInt 0)))"
proof -
  have single: "cur_operation cur \<notin> set [''insert_one'', ''update_one'', ''delete_one'', ''replace_one'']"
    using many by (rule many_not_single)
  have "Cursor_rowcount cur =
        (if py_hasattr (cur_result cur) ''inserted_count''
           then py_getattr (cur_result cur) ''inserted_count''
         else if py_hasattr (cur_result cur) ''modified_count''
           then py_getattr (cur_result cur) ''modified_count''
         else if py_hasattr (cur_result cur) ''deleted_count''
           then py_getattr (cur_result cur) ''deleted_count''
         else Inr (PInt 0))"
    unfolding Cursor_rowcount_def
    by (simp only: ex many single if_True if_False not_True_eq_False)
  also have "\<dots> = Inr (case map_of attrs ''inserted_count'' of
            Some n \<Rightarrow> n
          | None \<Rightarrow>
              (case map_of attrs ''modified_count'' of
                 Some n \<Rightarrow> n
               | None \<Rightarrow>
                   (case map_of attrs ''deleted_count'' of Some n \<Rightarrow> n | None \<Rightarrow> PInt 0)))"
    unfolding obj
    by (cases "map_of attrs ''inserted_count''"; cases "map_of attrs ''modified_count''";
        cases "map_of attrs ''deleted_count''") simp_all
  finally show ?thesis .
qed

lemma rowcount_single:
  assumes ex: "cur_executed cur"
    and single: "cur_operation cur \<in> set [''insert_one'', ''update_one'', ''delete_one'', ''replace_one'']"
    and obj: "cur_result cur = PObject attrs" and ack: "map_of attrs ''acknowledged'' = Some a"
  shows "Cursor_rowcount cur = Inr (PInt (if truthy a then 1 else 0))"
proof -
  have "Cursor_rowcount cur =
        (case py_getattr (cur_result cur) ''acknowledged'' of
           Inl e \<Rightarrow> Inl e
         | Inr a \<Rightarrow> Inr (if truthy a then PInt 1 else PInt 0))"
    unfolding Cursor_rowcount_def
    by (simp only: ex single if_True if_False not_True_eq_False)
  also have "\<dots> = Inr (PInt (if truthy a then 1 else 0))"
    unfolding obj by (simp add: ack)
  finally show ?thesis .
qed

lemma executed_cursor_fields:
  "cur_executed (executed_cursor operation raw)"
  "cur_operation (executed_cursor operation raw) = operation"
  "cur_result (executed_cursor operation raw) = raw"
  by (simp_all add: executed_cursor_def Cursor_init_def)

text \<open>
  C7. \<open>rowcount\<close> is \<open>-1\<close> on a cursor not yet executed. After execution, for
  \<open>insert_many\<close>, \<open>update_many\<close> and \<open>delete_many\<close> it is the inserted count where
  the raw result has that attribute, else the modified count where it has that one, else
  the deleted count where it has that one, else \<open>0\<close>; for the single-document writes
  it is \<open>1\<close> when the acknowledged attribute is true and \<open>0\<close> when it is false; for
  \<open>count_documents\<close> it is the raw result itself.
\<close>

theorem rowcount_semantics:
  "(\<not> cur_executed cur \<longrightarrow> Cursor_rowcount cur = Inr (PInt (- 1)))
   \<and> (cur_executed cur
        \<and> cur_operation cur \<in> set [''insert_many'', ''update_many'', ''delete_many'']
        \<and> cur_result cur = PObject attrs \<longrightarrow>
        Cursor_rowcount cur =
          Inr (case map_of attrs ''inserted_count'' of
                 Some n \<Rightarrow> n
               | None \<Rightarrow>
                   (case map_of attrs ''modified_count'' of
                      Some n \<Rightarrow> n
                    | None \<Rightarrow>
                        (case map_of attrs ''deleted_count'' of
                           Some n \<Rightarrow> n
                         | None \<Rightarrow> PInt 0))))
   \<and> (cur_executed cur
        \<and> cur_operation cur \<in> set [''insert_one'', ''update_one'', ''delete_one'', ''replace_one'']
        \<and> cur_result cur = PObject attrs' \<and> map_of attrs' ''acknowledged'' = Some a \<longrightarrow>
        Cursor_rowcount cur = Inr (PInt (if truthy a then 1 else 0)))
   \<and> (cur_executed cur \<and> cur_operation cur = ''count_documents'' \<longrightarrow>
        Cursor_rowcount cur = Inr (cur_result cur))"
proof (intro conjI impI)
  assume "\<not> cur_executed cur"
  then show "Cursor_rowcount cur = Inr (PInt (- 1))" by (rule rowcount_pending)
next
  assume "cur_executed cur
        \<and> cur_operation cur \<in> set [''insert_many'', ''update_many'', ''delete_many'']
        \<and> cur_result cur = PObject attrs"
  then show "Cursor_rowcount cur =
          Inr (case map_of attrs ''inserted_count'' of
                 Some n \<Rightarrow> n
               | None \<Rightarrow>
                   (case map_of attrs ''modified_count'' of
                      Some n \<Rightarrow> n
                    | None \<Rightarrow>
                        (case map_of attrs ''deleted_count'' of
                           Some n \<Rightarrow> n
                         | None \<Rightarrow> PInt 0)))"
    using rowcount_many by blast
next
  assume "cur_executed cur
        \<and> cur_operation cur \<in> set [''insert_one'', ''update_one'', ''delete_one'', ''replace_one'']
        \<and> cur_result cur = PObject attrs' \<and> map_of attrs' ''acknowledged'' = Some a"
  then show "Cursor_rowcount cur = Inr (PInt (if truthy a then 1 else 0))"
    using rowcount_single by blast
next
  assume "cur_executed cur \<and> cur_operation cur = ''count_documents''"
  then show "Cursor_rowcount cur = Inr (cur_result cur)"
    using rowcount_count by blast
qed

theorem rowcount_semantics_witness:
  "Cursor_rowcount (Cursor_init (open_connection None) ''users'' ''update_many'' [] [])
     = Inr (PInt (- 1))
   \<and> Cursor_rowcount (executed_cursor ''update_many''
        (PObject [(''modified_count'', PInt 3), (''deleted_count'', PInt 9)])) = Inr (PInt 3)
   \<and> Cursor_rowcount (executed_cursor ''delete_many''
        (PObject [(''deleted_count'', PInt 4), (''inserted_count'', PInt 7)])) = Inr (PInt 7)
   \<and> Cursor_rowcount (executed_cursor ''insert_many''
        (PObject [(''inserted_ids'', PNone)])) = Inr (PInt 0)
   \<and> Cursor_rowcount (executed_cursor ''delete_one''
        (PObject [(''acknowledged'', PBool True), (''deleted_count'', PInt 0)])) = Inr (PInt 1)
   \<and> Cursor_rowcount (executed_cursor ''count_documents'' (PInt 12)) = Inr (PInt 12)"
proof (intro conjI)
  show "Cursor_rowcount (Cursor_init (open_connection None) ''users'' ''update_many'' [] [])
     = Inr (PInt (- 1))"
    using rowcount_semantics
      [of "Cursor_init (open_connection None) ''users'' ''update_many'' [] []" "[]" "[]" PNone]
    by (simp add: init_fields)
  show "Cursor_rowcount (executed_cursor ''update_many''
        (PObject [(''modified_count'', PInt 3), (''deleted_count'', PInt 9)])) = Inr (PInt 3)"
    using rowcount_semantics
      [of "executed_cursor ''update_many''
            (PObject [(''modified_count'', PInt 3), (''deleted_count'', PInt 9)])"
          "[(''modified_count'', PInt 3), (''deleted_count'', PInt 9)]" "[]" PNone]
    by (simp add: executed_cursor_fields)
  show "Cursor_rowcount (executed_cursor ''delete_many''
        (PObject [(''deleted_count'', PInt 4), (''inserted_count'', PInt 7)])) = Inr (PInt 7)"
    using rowcount_semantics
      [of "executed_cursor ''delete_many''
            (PObject [(''deleted_count'', PInt 4), (''inserted_count'', PInt 7)])"
          "[(''deleted_count'', PInt 4), (''inserted_count'', PInt 7)]" "[]" PNone]
    by (simp add: executed_cursor_fields)
  show "Cursor_rowcount (executed_cursor ''insert_many''
        (PObject [(''inserted_ids'', PNone)])) = Inr (PInt 0)"
    using rowcount_semantics
      [of "executed_cursor ''insert_many'' (PObject [(''inserted_ids'', PNone)])"
          "[(''inserted_ids'', PNone)]" "[]" PNone]
    by (simp add: executed_cursor_fields)
  show "Cursor_rowcount (executed_cursor ''delete_one''
        (PObject [(''acknowledged'', PBool True), (''deleted_count'', PInt 0)])) = Inr (PInt 1)"
    using rowcount_semantics
      [of "executed_cursor ''delete_one''
            (PObject [(''acknowledged'', PBool True), (''deleted_count'', PInt 0)])"
          "[]" "[(''acknowledged'', PBool True), (''deleted_count'', PInt 0)]" "PBool True"]
    by (simp add: executed_cursor_fields)
  show "Cursor_rowcount (executed_cursor ''count_documents'' (PInt 12)) = Inr (PInt 12)"
    using rowcount_semantics [of "executed_cursor ''count_documents'' (PInt 12)" "[]" "[]" PNone]
    by (simp add: executed_cursor_fields)
qed

lemma executed_on_aggregate:
  "executed_on ''aggregate'' =
     \<lparr>cur_collection_name = ''orders'', cur_operation = ''aggregate'', cur_args = [],
      cur_kwargs = [], cur_document_factory = wrap_factory, cur_result = PIter two_documents,
      cur_executed = True, cur_description = PNone\<rparr>"
  by (simp add: executed_on_def Cursor_execute_def Cursor_init_def open_connection_def
      Connection_closed_def Connection_collection_def Cursor_dispatch_def sequence_driver_def)

lemma executed_on_find:
  "executed_on ''find'' =
     \<lparr>cur_collection_name = ''orders'', cur_operation = ''find'', cur_args = [],
      cur_kwargs = [], cur_document_factory = wrap_factory, cur_result = PIter two_documents,
      cur_executed = True, cur_description = PNone\<rparr>"
  by (simp add: executed_on_def Cursor_execute_def Cursor_init_def open_connection_def
      Connection_closed_def Connection_collection_def Cursor_dispatch_def sequence_driver_def)

text \<open>
  C3. After the execution of an \<open>aggregate\<close> cursor whose raw result is a lazy sequence
  of two documents, \<open>fetchone\<close> returns that sequence itself, neither pulled from nor
  passed through the document factory, and \<open>fetchall\<close> and \<open>fetchmany 2\<close> return the
  empty list; a \<open>find\<close> cursor with the same raw result yields the first document
  under the factory, and both documents under the factory.
\<close>

theorem aggregate_fetch_is_not_find_fetch:
  "cur_executed (executed_on ''aggregate'')
   \<and> cur_result (executed_on ''aggregate'') = PIter two_documents
   \<and> fst (Cursor_fetchone sequence_driver (open_connection (Some wrap_factory)) []
        (executed_on ''aggregate'')) = Inr (PIter two_documents)
   \<and> fst (Cursor_fetchall sequence_driver (open_connection (Some wrap_factory)) []
        (executed_on ''aggregate'')) = Inr []
   \<and> fst (Cursor_fetchmany sequence_driver (open_connection (Some wrap_factory)) 2 []
        (executed_on ''aggregate'')) = Inr []
   \<and> fst (Cursor_fetchone sequence_driver (open_connection (Some wrap_factory)) []
        (executed_on ''find'')) = Inr (wrap_factory (PDict [(''n'', PInt 1)]))
   \<and> fst (Cursor_fetchall sequence_driver (open_connection (Some wrap_factory)) []
        (executed_on ''find'')) = Inr (map wrap_factory two_documents)
   \<and> fst (Cursor_fetchmany sequence_driver (open_connection (Some wrap_factory)) 2 []
        (executed_on ''find'')) = Inr (map wrap_factory two_documents)"
proof (intro conjI)
  show "cur_executed (executed_on ''aggregate'')"
    by (simp add: executed_on_aggregate)
  show "cur_result (executed_on ''aggregate'') = PIter two_documents"
    by (simp add: executed_on_aggregate)
  show "fst (Cursor_fetchone sequence_driver (open_connection (Some wrap_factory)) []
        (executed_on ''aggregate'')) = Inr (PIter two_documents)"
    by (simp add: executed_on_aggregate Cursor_fetchone_def Cursor_ensure_executed_def)
  show "fst (Cursor_fetchall sequence_driver (open_connection (Some wrap_factory)) []
        (executed_on ''aggregate'')) = Inr []"
    by (simp add: executed_on_aggregate Cursor_fetchall_def Cursor_ensure_executed_def)
  show "fst (Cursor_fetchmany sequence_driver (open_connection (Some wrap_factory)) 2 []
        (executed_on ''aggregate'')) = Inr []"
    by (simp add: executed_on_aggregate Cursor_fetchmany_def Cursor_ensure_executed_def)
  show "fst (Cursor_fetchone sequence_driver (open_connection (Some wrap_factory)) []
        (executed_on ''find'')) = Inr (wrap_factory (PDict [(''n'', PInt 1)]))"
    by (simp add: executed_on_find Cursor_fetchone_def Cursor_ensure_executed_def
        two_documents_def)
  show "fst (Cursor_fetchall sequence_driver (open_connection (Some wrap_factory)) []
        (executed_on ''find'')) = Inr (map wrap_factory two_documents)"
    by (simp add: executed_on_find Cursor_fetchall_def Cursor_ensure_executed_def
        two_documents_def)
  have loop: "fetchmany_loop wrap_factory 2 (PIter two_documents) []
                = (None, PIter [], map wrap_factory two_documents)"
    by (simp add: two_documents_def numeral_2_eq_2)
  show "fst (Cursor_fetchmany sequence_driver (open_connection (Some wrap_factory)) 2 []
        (executed_on ''find'')) = Inr (map wrap_factory two_documents)"
    unfolding Cursor_fetchmany_def Cursor_ensure_executed_def
    by (simp add: executed_on_find loop)
qed

section \<open>Properties of the pool\<close>

lemma create_connection_bound:
  assumes "p_created_connections p \<le> p_maxconn p"
  shows "p_created_connections (snd (ConnectionPool_create_connection drv p)) \<le> p_maxconn p
         \<and> p_maxconn (snd (ConnectionPool_create_connection drv p)) = p_maxconn p"
  using assms
  by (simp add: ConnectionPool_create_connection_def split: prod.splits option.splits)

lemma create_connection_pool_same:
  "p_pool (snd (ConnectionPool_create_connection drv p)) = p_pool p
   \<and> p_closed (snd (ConnectionPool_create_connection drv p)) = p_closed p"
  by (simp add: ConnectionPool_create_connection_def split: prod.splits option.splits)

lemma create_connection_error_same:
  "ConnectionPool_create_connection drv p = (Inl e, p') \<Longrightarrow> p' = p"
  by (simp add: ConnectionPool_create_connection_def split: prod.splits option.splits if_splits)

lemma atomic_step_bound:
  assumes "0 \<le> p_maxconn p" and "p_created_connections p \<le> p_maxconn p"
  shows "p_created_connections (atomic_step a p) \<le> p_maxconn p
         \<and> p_maxconn (atomic_step a p) = p_maxconn p"
proof (cases a)
  case (CreateLocked drv)
  then show ?thesis using create_connection_bound [OF assms(2)] by simp
next
  case QueueGet
  then show ?thesis using assms by (simp split: list.splits)
next
  case (QueuePut conn)
  then show ?thesis using assms by (simp split: sum.splits)
next
  case DecrementLocked
  then show ?thesis using assms by simp
next
  case MarkClosed
  then show ?thesis using assms by simp
next
  case ResetLocked
  then show ?thesis using assms by simp
qed

lemma atomic_trace_bound:
  assumes "0 \<le> p_maxconn p" and "p_created_connections p \<le> p_maxconn p"
  shows "\<forall>q \<in> set (atomic_trace as p). p_created_connections q \<le> p_maxconn p"
  using assms
proof (induction as arbitrary: p)
  case Nil
  then show ?case by simp
next
  case (Cons a as)
  from atomic_step_bound [OF Cons.prems]
  have b: "p_created_connections (atomic_step a p) \<le> p_maxconn p"
    and m: "p_maxconn (atomic_step a p) = p_maxconn p" by simp_all
  have "\<forall>q \<in> set (atomic_trace as (atomic_step a p)).
          p_created_connections q \<le> p_maxconn (atomic_step a p)"
    by (rule Cons.IH) (simp_all add: m b Cons.prems)
  then show ?case using Cons.prems by (simp add: m)
qed

lemma getconn_empty_queue:
  assumes "\<not> p_closed p" and "p_pool p = []"
    and "\<not> (case timeout of None \<Rightarrow> p_connect_timeout p | Some t' \<Rightarrow> t') < 0"
  shows "snd (ConnectionPool_getconn drv timeout p) = snd (ConnectionPool_create_connection drv p)"
proof (cases "ConnectionPool_create_connection drv p")
  case (Pair r p1)
  show ?thesis
  proof (cases r)
    case (Inl e)
    with Pair have same: "p1 = p" by (simp add: create_connection_error_same)
    show ?thesis
      using assms Pair Inl same
      by (cases e) (simp_all add: ConnectionPool_getconn_def Queue_get_def Let_def)
  next
    case (Inr conn)
    show ?thesis
      using assms Pair Inr
      by (simp add: ConnectionPool_getconn_def Queue_get_def Let_def)
  qed
qed

lemma getconn_idle:
  assumes "\<not> p_closed p" and "p_pool p = conn # q"
    and "\<not> (case timeout of None \<Rightarrow> p_connect_timeout p | Some t' \<Rightarrow> t') < 0"
  shows "ConnectionPool_getconn drv timeout p =
           (if ping conn then (Inr conn, p\<lparr>p_pool := q\<rparr>)
            else ConnectionPool_create_connection drv (p\<lparr>p_pool := q\<rparr>))"
  using assms by (simp add: ConnectionPool_getconn_def Queue_get_def Let_def)

lemma getconn_refused:
  assumes "p_closed p \<or> (case timeout of None \<Rightarrow> p_connect_timeout p | Some t' \<Rightarrow> t') < 0"
  shows "snd (ConnectionPool_getconn drv timeout p) = p"
  using assms by (auto simp add: ConnectionPool_getconn_def Queue_get_def Let_def)

lemma getconn_atomic: "\<exists>as. snd (ConnectionPool_getconn drv timeout p) = atomic_run as p"
proof (cases "p_closed p \<or> (case timeout of None \<Rightarrow> p_connect_timeout p | Some t' \<Rightarrow> t') < 0")
  case True
  then have "snd (ConnectionPool_getconn drv timeout p) = atomic_run [] p"
    by (simp add: getconn_refused)
  then show ?thesis ..
next
  case False
  then have opened: "\<not> p_closed p"
    and t: "\<not> (case timeout of None \<Rightarrow> p_connect_timeout p | Some t' \<Rightarrow> t') < 0" by simp_all
  show ?thesis
  proof (cases "p_pool p")
    case Nil
    from getconn_empty_queue [OF opened Nil t]
    have "snd (ConnectionPool_getconn drv timeout p) = atomic_run [CreateLocked drv] p"
      by simp
    then show ?thesis ..
  next
    case (Cons conn q)
    show ?thesis
    proof (cases "ping conn")
      case True
      with getconn_idle [OF opened Cons t]
      have "snd (ConnectionPool_getconn drv timeout p) = atomic_run [QueueGet] p"
        by (simp add: Cons)
      then show ?thesis ..
    next
      case False
      with getconn_idle [OF opened Cons t]
      have "snd (ConnectionPool_getconn drv timeout p) = atomic_run [QueueGet, CreateLocked drv] p"
        by (simp add: Cons)
      then show ?thesis ..
    qed
  qed
qed

lemma putconn_atomic: "\<exists>as. snd (ConnectionPool_putconn conn p) = atomic_run as p"
proof -
  consider "p_closed p" | "\<not> p_closed p" "c_closed conn"
    | "\<not> p_closed p" "\<not> c_closed conn" "Queue_full (p_maxconn p) (p_pool p)"
    | "\<not> p_closed p" "\<not> c_closed conn" "\<not> Queue_full (p_maxconn p) (p_pool p)"
    by blast
  then show ?thesis
  proof cases
    case 1
    then have "snd (ConnectionPool_putconn conn p) = atomic_run [] p"
      by (simp add: ConnectionPool_putconn_def)
    then show ?thesis ..
  next
    case 2
    then have "snd (ConnectionPool_putconn conn p) = atomic_run [DecrementLocked] p"
      by (simp add: ConnectionPool_putconn_def Connection_closed_def)
    then show ?thesis ..
  next
    case 3
    then have "snd (ConnectionPool_putconn conn p) = atomic_run [DecrementLocked] p"
      by (simp add: ConnectionPool_putconn_def Connection_closed_def Queue_put_nowait_def)
    then show ?thesis ..
  next
    case 4
    then have "snd (ConnectionPool_putconn conn p) = atomic_run [QueuePut conn] p"
      by (simp add: ConnectionPool_putconn_def Connection_closed_def Queue_put_nowait_def)
    then show ?thesis ..
  qed
qed

lemma drain_queue_gets:
  "atomic_run (replicate (length (p_pool p)) QueueGet) p = p\<lparr>p_pool := []\<rparr>"
proof (induction "p_pool p" arbitrary: p)
  case Nil
  then show ?case by simp
next
  case (Cons conn q)
  from Cons(2) have pq: "p_pool p = conn # q" by simp
  have "atomic_run (replicate (length (p_pool p)) QueueGet) p
          = atomic_run (replicate (length q) QueueGet) (p\<lparr>p_pool := q\<rparr>)"
    by (simp add: pq)
  also have "\<dots> = (p\<lparr>p_pool := q\<rparr>)\<lparr>p_pool := []\<rparr>"
    using Cons(1) [of "p\<lparr>p_pool := q\<rparr>"] by simp
  finally show ?case by simp
qed

lemma atomic_run_append: "atomic_run (as @ bs) p = atomic_run bs (atomic_run as p)"
  by (induction as arbitrary: p) simp_all

lemma closeall_atomic: "\<exists>as. snd (ConnectionPool_closeall p) = atomic_run as p"
proof -
  have "snd (ConnectionPool_closeall p)
          = atomic_run (MarkClosed # replicate (length (p_pool p)) QueueGet @ [ResetLocked]) p"
    using drain_queue_gets [of "p\<lparr>p_closed := True\<rparr>"]
    by (simp add: ConnectionPool_closeall_def atomic_run_append)
  then show ?thesis ..
qed

lemma pool_step_atomic: "\<exists>as. pool_step c p = atomic_run as p"
  by (cases c) (simp_all add: getconn_atomic putconn_atomic closeall_atomic)

lemma atomic_run_bound:
  assumes "0 \<le> p_maxconn p" and "p_created_connections p \<le> p_maxconn p"
  shows "p_created_connections (atomic_run as p) \<le> p_maxconn p
         \<and> p_maxconn (atomic_run as p) = p_maxconn p"
  using assms
proof (induction as arbitrary: p)
  case Nil
  then show ?case by simp
next
  case (Cons a as)
  from atomic_step_bound [OF Cons.prems]
  have b: "p_created_connections (atomic_step a p) \<le> p_maxconn p"
    and m: "p_maxconn (atomic_step a p) = p_maxconn p" by simp_all
  from Cons.IH [of "atomic_step a p"] b m Cons.prems
  show ?case by simp
qed

lemma pool_step_bound:
  assumes "0 \<le> p_maxconn p" and "p_created_connections p \<le> p_maxconn p"
  shows "p_created_connections (pool_step c p) \<le> p_maxconn p
         \<and> p_maxconn (pool_step c p) = p_maxconn p"
proof -
  from pool_step_atomic obtain as where "pool_step c p = atomic_run as p" ..
  with atomic_run_bound [OF assms, of as] show ?thesis by simp
qed

lemma pool_trace_bound:
  assumes "0 \<le> p_maxconn p" and "p_created_connections p \<le> p_maxconn p"
  shows "\<forall>q \<in> set (pool_trace cs p). p_created_connections q \<le> p_maxconn p"
  using assms
proof (induction cs arbitrary: p)
  case Nil
  then show ?case by simp
next
  case (Cons c cs)
  from pool_step_bound [OF Cons.prems]
  have b: "p_created_connections (pool_step c p) \<le> p_maxconn p"
    and m: "p_maxconn (pool_step c p) = p_maxconn p" by simp_all
  have "\<forall>q \<in> set (pool_trace cs (pool_step c p)).
          p_created_connections q \<le> p_maxconn (pool_step c p)"
    by (rule Cons.IH) (simp_all add: m b Cons.prems)
  then show ?case using Cons.prems by (simp add: m)
qed

lemma create_initial_bound:
  assumes "create_initial drv is p = Inr p'" and "p_created_connections p \<le> p_maxconn p"
  shows "p_created_connections p' \<le> p_maxconn p \<and> p_maxconn p' = p_maxconn p"
  using assms
proof (induction "is" arbitrary: p)
  case Nil
  then show ?case by simp
next
  case (Cons i "is")
  obtain r p1 where step: "ConnectionPool_create_connection (drv i) p = (r, p1)"
    by (cases "ConnectionPool_create_connection (drv i) p")
  from create_connection_bound [OF Cons.prems(2), of "drv i"] step
  have b: "p_created_connections p1 \<le> p_maxconn p" and m: "p_maxconn p1 = p_maxconn p"
    by simp_all
  from Cons.prems(1) step obtain conn where "r = Inr conn" and rest: "create_initial drv is p1 = Inr p'"
    by (cases r) simp_all
  from Cons.IH [OF rest] b m show ?case by simp
qed

lemma init_bound:
  assumes "ConnectionPool_init drv factory minconn maxconn t = Inr p" and "0 \<le> maxconn"
  shows "p_created_connections p \<le> maxconn \<and> p_maxconn p = maxconn"
  using create_initial_bound [OF assms(1) [unfolded ConnectionPool_init_def]] assms(2)
  by simp

lemma init_one_of_two:
  "ConnectionPool_init (\<lambda>i. reachable) None 1 2 5 = Inr (constructed_pool 2 1)"
  by (simp add: ConnectionPool_init_def ConnectionPool_create_connection_def reachable_def
      Connection_connect_def Connection_init_def constructed_pool_def)

text \<open>
  C4. For a pool constructed with maximum size \<open>M\<close>, the counter of created connections
  is at most \<open>M\<close> in the state after every call of every sequence of acquire, release
  and close-all calls, the arguments and the driver's behaviour being arbitrary; and it is
  at most \<open>M\<close> after every step of every sequence of the pool's atomic steps, into which
  the calls of concurrent threads interleave.
\<close>

theorem created_connections_bounded:
  assumes "ConnectionPool_init drv factory minconn (int M) t = Inr p0"
  shows "(\<forall>p \<in> set (pool_trace calls p0). p_created_connections p \<le> int M)
         \<and> (\<forall>p \<in> set (atomic_trace actions p0). p_created_connections p \<le> int M)"
proof -
  from init_bound [OF assms]
  have b: "p_created_connections p0 \<le> p_maxconn p0" and m: "p_maxconn p0 = int M" and z: "0 \<le> p_maxconn p0"
    by simp_all
  from pool_trace_bound [OF z b, of calls] atomic_trace_bound [OF z b, of actions] m
  show ?thesis by simp
qed

theorem created_connections_bounded_witness:
  "ConnectionPool_init (\<lambda>i. reachable) None 1 (int 2) 5 = Inr (constructed_pool 2 1)
   \<and> p_created_connections
        (pool_step (Acquire reachable (Some 0))
          (pool_step (Acquire reachable (Some 0)) (constructed_pool 2 1))) \<le> int 2
   \<and> p_created_connections
        (atomic_step (CreateLocked reachable)
          (atomic_step (CreateLocked reachable) (constructed_pool 2 1))) \<le> int 2"
proof -
  have init: "ConnectionPool_init (\<lambda>i. reachable) None 1 (int 2) 5 = Inr (constructed_pool 2 1)"
    using init_one_of_two by simp
  from created_connections_bounded [OF init,
      of "[Acquire reachable (Some 0), Acquire reachable (Some 0)]"
         "[CreateLocked reachable, CreateLocked reachable]"]
  have calls: "\<forall>p \<in> set (pool_trace [Acquire reachable (Some 0), Acquire reachable (Some 0)]
                  (constructed_pool 2 1)). p_created_connections p \<le> int 2"
    and actions: "\<forall>p \<in> set (atomic_trace [CreateLocked reachable, CreateLocked reachable]
                  (constructed_pool 2 1)). p_created_connections p \<le> int 2"
    by simp_all
  have a: "p_created_connections
        (pool_step (Acquire reachable (Some 0))
          (pool_step (Acquire reachable (Some 0)) (constructed_pool 2 1))) \<le> int 2"
    using calls by (simp del: pool_step.simps)
  have b: "p_created_connections
        (atomic_step (CreateLocked reachable)
          (atomic_step (CreateLocked reachable) (constructed_pool 2 1))) \<le> int 2"
    using actions by (simp del: atomic_step.simps)
  from init a b show ?thesis by blast
qed

lemma create_initial_pool_same:
  "create_initial drv is p = Inr p' \<Longrightarrow> p_pool p' = p_pool p"
proof (induction "is" arbitrary: p)
  case Nil
  then show ?case by simp
next
  case (Cons i "is")
  obtain r p1 where step: "ConnectionPool_create_connection (drv i) p = (r, p1)"
    by (cases "ConnectionPool_create_connection (drv i) p")
  from create_connection_pool_same [of "drv i" p] step
  have q: "p_pool p1 = p_pool p" by simp
  from Cons.prems step obtain conn where "r = Inr conn" and rest: "create_initial drv is p1 = Inr p'"
    by (cases r) simp_all
  from Cons.IH [OF rest] q show ?case by simp
qed

lemma init_leaves_queue_empty:
  "ConnectionPool_init drv factory minconn maxconn t = Inr p \<Longrightarrow> p_pool p = []"
  using create_initial_pool_same [of drv "[0 ..< nat minconn]" _ p]
  by (simp add: ConnectionPool_init_def)

lemma init_one_of_one:
  "ConnectionPool_init (\<lambda>i. reachable) None 1 1 5 = Inr (constructed_pool 1 1)"
  by (simp add: ConnectionPool_init_def ConnectionPool_create_connection_def reachable_def
      Connection_connect_def Connection_init_def constructed_pool_def)

lemma init_none_of_one:
  "ConnectionPool_init (\<lambda>i. reachable) None 0 1 5 = Inr (constructed_pool 1 0)"
  by (simp add: ConnectionPool_init_def constructed_pool_def)

text \<open>
  C1. The constructor with minimum 1 makes one connection and counts it, and leaves the
  idle queue empty: the connection is dropped. With maximum 1 the first acquire finds
  nothing idle, may not create, and fails; with maximum 2 it succeeds only by creating a
  second connection.
\<close>

theorem constructor_does_not_seed_idle_set:
  "ConnectionPool_init (\<lambda>i. reachable) None 1 1 5 = Inr (constructed_pool 1 1)
   \<and> p_created_connections (constructed_pool 1 1) = 1
   \<and> p_pool (constructed_pool 1 1) = []
   \<and> ConnectionPool_getconn reachable (Some 0) (constructed_pool 1 1)
       = (Inl QueueEmpty, constructed_pool 1 1)
   \<and> ConnectionPool_init (\<lambda>i. reachable) None 1 2 5 = Inr (constructed_pool 2 1)
   \<and> p_pool (constructed_pool 2 1) = []
   \<and> ConnectionPool_getconn reachable (Some 0) (constructed_pool 2 1)
       = (Inr live_connection, (constructed_pool 2 1)\<lparr>p_created_connections := 2\<rparr>)"
proof (intro conjI)
  show "ConnectionPool_init (\<lambda>i. reachable) None 1 1 5 = Inr (constructed_pool 1 1)"
    by (rule init_one_of_one)
  show "ConnectionPool_init (\<lambda>i. reachable) None 1 2 5 = Inr (constructed_pool 2 1)"
    by (rule init_one_of_two)
  show "p_created_connections (constructed_pool 1 1) = 1"
    by (simp add: constructed_pool_def)
  show "p_pool (constructed_pool 1 1) = []"
    by (simp add: constructed_pool_def)
  show "p_pool (constructed_pool 2 1) = []"
    by (simp add: constructed_pool_def)
  show "ConnectionPool_getconn reachable (Some 0) (constructed_pool 1 1)
       = (Inl QueueEmpty, constructed_pool 1 1)"
    by (simp add: ConnectionPool_getconn_def Queue_get_def ConnectionPool_create_connection_def
        constructed_pool_def)
  show "ConnectionPool_getconn reachable (Some 0) (constructed_pool 2 1)
       = (Inr live_connection, (constructed_pool 2 1)\<lparr>p_created_connections := 2\<rparr>)"
    by (simp add: ConnectionPool_getconn_def Queue_get_def ConnectionPool_create_connection_def
        constructed_pool_def reachable_def Connection_connect_def Connection_init_def
        live_connection_def)
qed

text \<open>
  What an acquire does with a dead idle connection depends on the counter alone: below
  the maximum it is replaced, at the maximum the acquire fails.
\<close>

lemma getconn_replaces_below_capacity:
  assumes "\<not> p_closed p" and "p_pool p = conn # q" and "\<not> ping conn"
    and "\<not> (case timeout of None \<Rightarrow> p_connect_timeout p | Some t' \<Rightarrow> t') < 0"
    and "p_created_connections p < p_maxconn p"
  shows "ConnectionPool_getconn (Connected h d) timeout p =
           (Inr ((Connection_init (p_document_factory p))\<lparr>c_client := Some h, c_db := Some d\<rparr>),
            p\<lparr>p_pool := q, p_created_connections := p_created_connections p + 1\<rparr>)"
  using assms
  by (simp add: getconn_idle ConnectionPool_create_connection_def Connection_connect_def
      Connection_init_def)

lemma getconn_dead_at_capacity:
  assumes "\<not> p_closed p" and "p_pool p = conn # q" and "\<not> ping conn"
    and "\<not> (case timeout of None \<Rightarrow> p_connect_timeout p | Some t' \<Rightarrow> t') < 0"
    and "p_maxconn p \<le> p_created_connections p"
  shows "ConnectionPool_getconn drv timeout p =
           (Inl (OperationalError ''Maximum number of connections reached''), p\<lparr>p_pool := q\<rparr>)"
  using assms
  by (simp add: getconn_idle ConnectionPool_create_connection_def)

text \<open>
  C2. A pool of maximum 1 hands out its one connection; the connection dies and is
  released, so that it is idle again. The next acquire takes it, the probe fails, and the
  replacement is refused for capacity, the counter still counting the dead connection:
  the acquire fails, and so does every later one.
\<close>

theorem dead_idle_connection_exhausts_pool:
  "ConnectionPool_init (\<lambda>i. reachable) None 0 1 5 = Inr (constructed_pool 1 0)
   \<and> ConnectionPool_getconn reachable (Some 0) (constructed_pool 1 0)
       = (Inr live_connection, (constructed_pool 1 0)\<lparr>p_created_connections := 1\<rparr>)
   \<and> ConnectionPool_putconn dead_connection
        ((constructed_pool 1 0)\<lparr>p_created_connections := 1\<rparr>)
       = (dead_connection,
          (constructed_pool 1 0)\<lparr>p_created_connections := 1, p_pool := [dead_connection]\<rparr>)
   \<and> ConnectionPool_getconn reachable (Some 0)
        ((constructed_pool 1 0)\<lparr>p_created_connections := 1, p_pool := [dead_connection]\<rparr>)
       = (Inl (OperationalError ''Maximum number of connections reached''),
          (constructed_pool 1 0)\<lparr>p_created_connections := 1, p_pool := []\<rparr>)
   \<and> ConnectionPool_getconn reachable (Some 0)
        ((constructed_pool 1 0)\<lparr>p_created_connections := 1, p_pool := []\<rparr>)
       = (Inl QueueEmpty, (constructed_pool 1 0)\<lparr>p_created_connections := 1, p_pool := []\<rparr>)"
proof (intro conjI)
  show "ConnectionPool_init (\<lambda>i. reachable) None 0 1 5 = Inr (constructed_pool 1 0)"
    by (rule init_none_of_one)
  show "ConnectionPool_getconn reachable (Some 0) (constructed_pool 1 0)
       = (Inr live_connection, (constructed_pool 1 0)\<lparr>p_created_connections := 1\<rparr>)"
    by (simp add: ConnectionPool_getconn_def Queue_get_def ConnectionPool_create_connection_def
        constructed_pool_def reachable_def Connection_connect_def Connection_init_def
        live_connection_def)
  show "ConnectionPool_putconn dead_connection
        ((constructed_pool 1 0)\<lparr>p_created_connections := 1\<rparr>)
       = (dead_connection,
          (constructed_pool 1 0)\<lparr>p_created_connections := 1, p_pool := [dead_connection]\<rparr>)"
    by (simp add: ConnectionPool_putconn_def Connection_closed_def Queue_put_nowait_def
        Queue_full_def constructed_pool_def dead_connection_def)
  show "ConnectionPool_getconn reachable (Some 0)
        ((constructed_pool 1 0)\<lparr>p_created_connections := 1, p_pool := [dead_connection]\<rparr>)
       = (Inl (OperationalError ''Maximum number of connections reached''),
          (constructed_pool 1 0)\<lparr>p_created_connections := 1, p_pool := []\<rparr>)"
    by (simp add: ConnectionPool_getconn_def Queue_get_def ConnectionPool_create_connection_def
        constructed_pool_def ping_def Connection_client_def dead_connection_def)
  show "ConnectionPool_getconn reachable (Some 0)
        ((constructed_pool 1 0)\<lparr>p_created_connections := 1, p_pool := []\<rparr>)
       = (Inl QueueEmpty, (constructed_pool 1 0)\<lparr>p_created_connections := 1, p_pool := []\<rparr>)"
    by (simp add: ConnectionPool_getconn_def Queue_get_def ConnectionPool_create_connection_def
        constructed_pool_def)
qed

lemma putconn_pool_closed:
  "p_closed p \<Longrightarrow> ConnectionPool_putconn conn p = (Connection_close conn, p)"
  by (simp add: ConnectionPool_putconn_def)

lemma putconn_conn_closed:
  "\<not> p_closed p \<Longrightarrow> c_closed conn \<Longrightarrow>
   ConnectionPool_putconn conn p =
     (conn, p\<lparr>p_created_connections := p_created_connections p - 1\<rparr>)"
  by (simp add: ConnectionPool_putconn_def Connection_closed_def)

lemma putconn_full:
  "\<not> p_closed p \<Longrightarrow> \<not> c_closed conn \<Longrightarrow> Queue_full (p_maxconn p) (p_pool p) \<Longrightarrow>
   ConnectionPool_putconn conn p =
     (Connection_close conn, p\<lparr>p_created_connections := p_created_connections p - 1\<rparr>)"
  by (simp add: ConnectionPool_putconn_def Connection_closed_def Queue_put_nowait_def)

lemma putconn_enqueue:
  "\<not> p_closed p \<Longrightarrow> \<not> c_closed conn \<Longrightarrow> \<not> Queue_full (p_maxconn p) (p_pool p) \<Longrightarrow>
   ConnectionPool_putconn conn p = (conn, p\<lparr>p_pool := p_pool p @ [conn]\<rparr>)"
  by (simp add: ConnectionPool_putconn_def Connection_closed_def Queue_put_nowait_def)

text \<open>
  C8. Release on a closed pool closes the connection and leaves the pool as it is. On an
  open pool, a connection that reports itself closed is dropped and the counter
  decremented; otherwise, when the idle queue is full, the connection is closed and the
  counter decremented; otherwise the connection is appended to the idle queue. In each
  case the connection is afterwards either idle in the queue, the counter unchanged, or
  closed and outside the queue, with the counter decremented unless the pool was closed.
\<close>

theorem putconn_release:
  "(p_closed p \<longrightarrow> ConnectionPool_putconn conn p = (Connection_close conn, p))
   \<and> (\<not> p_closed p \<and> c_closed conn \<longrightarrow>
        ConnectionPool_putconn conn p =
          (conn, p\<lparr>p_created_connections := p_created_connections p - 1\<rparr>))
   \<and> (\<not> p_closed p \<and> \<not> c_closed conn \<and> Queue_full (p_maxconn p) (p_pool p) \<longrightarrow>
        ConnectionPool_putconn conn p =
          (Connection_close conn, p\<lparr>p_created_connections := p_created_connections p - 1\<rparr>))
   \<and> (\<not> p_closed p \<and> \<not> c_closed conn \<and> \<not> Queue_full (p_maxconn p) (p_pool p) \<longrightarrow>
        ConnectionPool_putconn conn p = (conn, p\<lparr>p_pool := p_pool p @ [conn]\<rparr>))
   \<and> ((fst (ConnectionPool_putconn conn p) \<in> set (p_pool (snd (ConnectionPool_putconn conn p)))
         \<and> p_created_connections (snd (ConnectionPool_putconn conn p)) = p_created_connections p)
        \<or> (c_closed (fst (ConnectionPool_putconn conn p))
            \<and> p_pool (snd (ConnectionPool_putconn conn p)) = p_pool p
            \<and> (p_closed p
                \<or> p_created_connections (snd (ConnectionPool_putconn conn p))
                     = p_created_connections p - 1)))"
proof -
  consider (a) "p_closed p" | (b) "\<not> p_closed p" "c_closed conn"
    | (c) "\<not> p_closed p" "\<not> c_closed conn" "Queue_full (p_maxconn p) (p_pool p)"
    | (d) "\<not> p_closed p" "\<not> c_closed conn" "\<not> Queue_full (p_maxconn p) (p_pool p)"
    by blast
  then show ?thesis
  proof cases
    case a
    then show ?thesis by (simp add: putconn_pool_closed close_sets_closed)
  next
    case b
    then show ?thesis by (simp add: putconn_conn_closed)
  next
    case c
    then show ?thesis by (simp add: putconn_full close_sets_closed)
  next
    case d
    then show ?thesis by (simp add: putconn_enqueue)
  qed
qed

theorem putconn_release_witness:
  "ConnectionPool_putconn live_connection ((constructed_pool 1 1)\<lparr>p_closed := True\<rparr>)
     = (Connection_close live_connection, (constructed_pool 1 1)\<lparr>p_closed := True\<rparr>)
   \<and> ConnectionPool_putconn (Connection_close live_connection) (constructed_pool 1 1)
     = (Connection_close live_connection, (constructed_pool 1 1)\<lparr>p_created_connections := 0\<rparr>)
   \<and> ConnectionPool_putconn live_connection
        ((constructed_pool 1 2)\<lparr>p_pool := [dead_connection]\<rparr>)
     = (Connection_close live_connection,
        (constructed_pool 1 2)\<lparr>p_pool := [dead_connection], p_created_connections := 1\<rparr>)
   \<and> ConnectionPool_putconn live_connection (constructed_pool 1 1)
     = (live_connection, (constructed_pool 1 1)\<lparr>p_pool := [live_connection]\<rparr>)"
proof (intro conjI)
  show "ConnectionPool_putconn live_connection ((constructed_pool 1 1)\<lparr>p_closed := True\<rparr>)
     = (Connection_close live_connection, (constructed_pool 1 1)\<lparr>p_closed := True\<rparr>)"
    using putconn_release [of "(constructed_pool 1 1)\<lparr>p_closed := True\<rparr>" live_connection]
    by simp
  show "ConnectionPool_putconn (Connection_close live_connection) (constructed_pool 1 1)
     = (Connection_close live_connection, (constructed_pool 1 1)\<lparr>p_created_connections := 0\<rparr>)"
    using putconn_release [of "constructed_pool 1 1" "Connection_close live_connection"]
    by (simp add: constructed_pool_def close_sets_closed)
  show "ConnectionPool_putconn live_connection
        ((constructed_pool 1 2)\<lparr>p_pool := [dead_connection]\<rparr>)
     = (Connection_close live_connection,
        (constructed_pool 1 2)\<lparr>p_pool := [dead_connection], p_created_connections := 1\<rparr>)"
    using putconn_release [of "(constructed_pool 1 2)\<lparr>p_pool := [dead_connection]\<rparr>" live_connection]
    by (simp add: constructed_pool_def live_connection_def Queue_full_def)
  show "ConnectionPool_putconn live_connection (constructed_pool 1 1)
     = (live_connection, (constructed_pool 1 1)\<lparr>p_pool := [live_connection]\<rparr>)"
    using putconn_release [of "constructed_pool 1 1" live_connection]
    by (simp add: constructed_pool_def live_connection_def Queue_full_def)
qed

end
